theory Spec2Isabelle
  imports Complex_Main "HOL-Library.AList" "HOL-Library.List_Lexorder" "HOL-Library.Char_ord"
begin

section \<open>JavaScript values\<close>

text \<open>
  The handlers of \<^verbatim>\<open>src/routes/alerts.js\<close> read JSON request bodies and rows of the
  record store. A value is one of the JavaScript values JSON can carry, or
  \<^verbatim>\<open>undefined\<close> (what reading an absent property gives). A string is its UTF-8
  text. An object is an association list in property order; the first entry of a key
  is the property.

  A number is a double: a finite one is the real number it stands for (the two zeros
  are one), and beside them there are the two infinities and NaN. A JSON number beyond
  the range of the doubles, such as \<^verbatim>\<open>1e400\<close>, is parsed to \<^verbatim>\<open>Infinity\<close>.
\<close>

datatype number = Fin real | PosInf | NegInf | NaN

datatype jsval =
    JUndefined
  | JNull
  | JBool bool
  | JNum number
  | JStr string
  | JArr "jsval list"
  | JObj "(string \<times> jsval) list"

type_synonym obj = "(string \<times> jsval) list"

text \<open>Reading a property of an object literal or of a destructured body.\<close>

definition js_get :: "obj \<Rightarrow> string \<Rightarrow> jsval" where
  "js_get ob k = (case map_of ob k of None \<Rightarrow> JUndefined | Some v \<Rightarrow> v)"

text \<open>
  \<^verbatim>\<open>x.k\<close> on a value: a TypeError on \<^verbatim>\<open>null\<close> and \<^verbatim>\<open>undefined\<close>
  (\<open>Inl\<close> its message), the property on an object, \<^verbatim>\<open>undefined\<close> otherwise.
\<close>

definition js_prop :: "jsval \<Rightarrow> string \<Rightarrow> string + jsval" where
  "js_prop x k =
     (case x of
        JObj ob \<Rightarrow> Inr (js_get ob k)
      | JNull \<Rightarrow>
          Inl (''Cannot read properties of null (reading '' @ [CHR 0x27] @ k @ [CHR 0x27] @ '')'')
      | JUndefined \<Rightarrow>
          Inl (''Cannot read properties of undefined (reading '' @ [CHR 0x27] @ k @ [CHR 0x27] @ '')'')
      | _ \<Rightarrow> Inr JUndefined)"

text \<open>ToBoolean: what \<^verbatim>\<open>if (x)\<close>, \<^verbatim>\<open>!x\<close>, \<^verbatim>\<open>x || y\<close> and \<^verbatim>\<open>x ? a : b\<close> test.\<close>

fun truthy :: "jsval \<Rightarrow> bool" where
  "truthy JUndefined = False"
| "truthy JNull = False"
| "truthy (JBool b) = b"
| "truthy (JNum n) = (n \<noteq> Fin 0 \<and> n \<noteq> NaN)"
| "truthy (JStr s) = (s \<noteq> [])"
| "truthy (JArr xs) = True"
| "truthy (JObj ob) = True"

definition js_or :: "jsval \<Rightarrow> jsval \<Rightarrow> jsval" where
  "js_or a b = (if truthy a then a else b)"

text \<open>
  \<^verbatim>\<open>a === b\<close>. Objects and arrays compare by reference; a value read from the
  store and a value parsed from a request are never the same object. NaN equals
  nothing.
\<close>

fun strict_eq :: "jsval \<Rightarrow> jsval \<Rightarrow> bool" where
  "strict_eq (JArr xs) b = False"
| "strict_eq (JObj ob) b = False"
| "strict_eq (JNum NaN) b = False"
| "strict_eq a b = (a = b)"

text \<open>\<^verbatim>\<open>[..strings..].includes(v)\<close>: \<open>v\<close> is one of the listed strings.\<close>

definition js_includes :: "string list \<Rightarrow> jsval \<Rightarrow> bool" where
  "js_includes xs v = (v \<in> set (map JStr xs))"

subsection \<open>JSON.stringify\<close>

text \<open>
  The client sends the payload of an insert or an update as JSON text, and the store
  reads that text. \<^verbatim>\<open>JSON.stringify\<close> writes an infinity and NaN as
  \<^verbatim>\<open>null\<close>, leaves out a property whose value is \<^verbatim>\<open>undefined\<close> and writes an
  \<^verbatim>\<open>undefined\<close> array element as \<^verbatim>\<open>null\<close>. \<open>wire v\<close> is the value the store
  reads where the client wrote \<open>v\<close>.
\<close>

fun wire :: "jsval \<Rightarrow> jsval"
  and wire_items :: "jsval list \<Rightarrow> jsval list"
  and wire_props :: "obj \<Rightarrow> obj" where
  "wire (JNum (Fin x)) = JNum (Fin x)"
| "wire (JNum PosInf) = JNull"
| "wire (JNum NegInf) = JNull"
| "wire (JNum NaN) = JNull"
| "wire (JArr xs) = JArr (wire_items xs)"
| "wire (JObj ob) = JObj (wire_props ob)"
| "wire JUndefined = JUndefined"
| "wire JNull = JNull"
| "wire (JBool b) = JBool b"
| "wire (JStr s) = JStr s"
| "wire_items [] = []"
| "wire_items (x # xs) = (if x = JUndefined then JNull else wire x) # wire_items xs"
| "wire_props [] = []"
| "wire_props ((k, v) # ob) =
     (if v = JUndefined then wire_props ob else (k, wire v) # wire_props ob)"

subsection \<open>String.prototype.trim\<close>

text \<open>
  The code points \<^verbatim>\<open>trim\<close> strips (ECMAScript WhiteSpace and LineTerminator), each as
  its UTF-8 bytes: TAB, LF, VT, FF, CR, SP, U+00A0, U+1680, U+2000 to U+200A, U+2028,
  U+2029, U+202F, U+205F, U+3000, U+FEFF.
\<close>

definition white_space :: "string list" where
  "white_space =
     [[CHR 0x09], [CHR 0x0A], [CHR 0x0B], [CHR 0x0C], [CHR 0x0D], [CHR 0x20],
      [CHR 0xC2, CHR 0xA0], [CHR 0xE1, CHR 0x9A, CHR 0x80],
      [CHR 0xE2, CHR 0x80, CHR 0x80], [CHR 0xE2, CHR 0x80, CHR 0x81],
      [CHR 0xE2, CHR 0x80, CHR 0x82], [CHR 0xE2, CHR 0x80, CHR 0x83],
      [CHR 0xE2, CHR 0x80, CHR 0x84], [CHR 0xE2, CHR 0x80, CHR 0x85],
      [CHR 0xE2, CHR 0x80, CHR 0x86], [CHR 0xE2, CHR 0x80, CHR 0x87],
      [CHR 0xE2, CHR 0x80, CHR 0x88], [CHR 0xE2, CHR 0x80, CHR 0x89],
      [CHR 0xE2, CHR 0x80, CHR 0x8A], [CHR 0xE2, CHR 0x80, CHR 0xA8],
      [CHR 0xE2, CHR 0x80, CHR 0xA9], [CHR 0xE2, CHR 0x80, CHR 0xAF],
      [CHR 0xE2, CHR 0x81, CHR 0x9F], [CHR 0xE3, CHR 0x80, CHR 0x80],
      [CHR 0xEF, CHR 0xBB, CHR 0xBF]]"

text \<open>Strip, from the front, every leading occurrence of one of the patterns.\<close>

function strip_front :: "string list \<Rightarrow> string \<Rightarrow> string" where
  "strip_front ws s =
     (case find (\<lambda>w. w \<noteq> [] \<and> take (length w) s = w) ws of
        None \<Rightarrow> s
      | Some w \<Rightarrow> strip_front ws (drop (length w) s))"
  by pat_completeness auto
termination
proof (relation "measure (\<lambda>(ws, s). length s)")
  show "wf (measure (\<lambda>(ws, s). length s))"
    by simp
next
  fix ws :: "string list" and s w :: string
  assume "find (\<lambda>w. w \<noteq> [] \<and> take (length w) s = w) ws = Some w"
  then have w: "w \<noteq> []" "take (length w) s = w"
    by (auto simp: find_Some_iff)
  from w(2) have "length (take (length w) s) = length w"
    by simp
  then have "length w \<le> length s"
    by simp
  with w(1) show "((ws, drop (length w) s), (ws, s)) \<in> measure (\<lambda>(ws, s). length s)"
    by (cases w) auto
qed

definition trim :: "string \<Rightarrow> string" where
  "trim s = rev (strip_front (map rev white_space) (rev (strip_front white_space s)))"

text \<open>
  \<^verbatim>\<open>x.trim()\<close>, where \<open>callee\<close> is the text of the callee (\<^verbatim>\<open>title.trim\<close>): a
  trimmed string, or the TypeError of calling a method that a value other than a string
  does not have.
\<close>

definition call_trim :: "string \<Rightarrow> jsval \<Rightarrow> string + jsval" where
  "call_trim callee x =
     (case x of
        JStr s \<Rightarrow> Inr (JStr (trim s))
      | JNull \<Rightarrow>
          Inl (''Cannot read properties of null (reading '' @ [CHR 0x27] @ ''trim'' @ [CHR 0x27] @ '')'')
      | JUndefined \<Rightarrow>
          Inl (''Cannot read properties of undefined (reading '' @ [CHR 0x27] @ ''trim''
               @ [CHR 0x27] @ '')'')
      | _ \<Rightarrow> Inl (callee @ '' is not a function''))"

text \<open>\<^verbatim>\<open>x?.trim()\<close>: \<^verbatim>\<open>undefined\<close> when \<open>x\<close> is null or undefined.\<close>

definition opt_call_trim :: "string \<Rightarrow> jsval \<Rightarrow> string + jsval" where
  "opt_call_trim callee x =
     (case x of
        JNull \<Rightarrow> Inr JUndefined
      | JUndefined \<Rightarrow> Inr JUndefined
      | _ \<Rightarrow> call_trim callee x)"

subsection \<open>parseFloat\<close>

text \<open>
  Reading a decimal: the digits of a string are read as an integer, and the decimal
  \<open>n / d\<close> is rounded to the nearest double, ties to the even mantissa, as the
  engine does. \<open>bits_up\<close> finds the binade of a value of at least 1 (the largest
  \<open>e\<close> up to 1023 with \<open>2 ^ e \<le> n / d\<close>, and \<open>p = 2 ^ e\<close>), \<open>bits_down\<close> that of a
  smaller one (the least \<open>j\<close> with \<open>2 ^ - j \<le> n / d\<close>, at most 1022 where the
  subnormal doubles begin, and \<open>p = 2 ^ j\<close>). The mantissa has 53 bits; what rounds to
  \<open>2 ^ 1024\<close> or more is an infinity.
\<close>

definition is_digit :: "char \<Rightarrow> bool" where
  "is_digit c = (CHR ''0'' \<le> c \<and> c \<le> CHR ''9'')"

definition digits_val :: "string \<Rightarrow> int" where
  "digits_val ds = foldl (\<lambda>a c. 10 * a + (of_char c - 48)) 0 ds"

definition pow2 :: "int \<Rightarrow> real" where
  "pow2 e = (if 0 \<le> e then 2 ^ nat e else 1 / 2 ^ nat (- e))"

function bits_up :: "int \<Rightarrow> int \<Rightarrow> nat \<Rightarrow> int \<Rightarrow> nat \<times> int" where
  "bits_up n d e p =
     (if e < 1023 \<and> 2 * p * d \<le> n then bits_up n d (e + 1) (2 * p) else (e, p))"
  by pat_completeness auto
termination
  by (relation "measure (\<lambda>(n, d, e, p). 1023 - e)") auto

function bits_down :: "int \<Rightarrow> int \<Rightarrow> nat \<Rightarrow> int \<Rightarrow> nat \<times> int" where
  "bits_down n d j p =
     (if j < 1022 \<and> n * p < d then bits_down n d (j + 1) (2 * p) else (j, p))"
  by pat_completeness auto
termination
  by (relation "measure (\<lambda>(n, d, j, p). 1022 - j)") auto

definition round_double :: "bool \<Rightarrow> int \<Rightarrow> int \<Rightarrow> number" where
  "round_double neg n d =
     (if n = 0 then Fin 0
      else let (e, num, den) =
                 (if d \<le> n
                  then (case bits_up n d 0 1 of
                          (e, p) \<Rightarrow>
                            if e \<le> 52 then (int e, n * 2 ^ (52 - e), d)
                            else (int e, n, d * (p div 4503599627370496)))
                  else (case bits_down n d 1 2 of
                          (j, p) \<Rightarrow> (- int j, n * p * 4503599627370496, d)));
               q = num div den;
               r = num mod den;
               m = (if 2 * r < den then q else if den < 2 * r then q + 1
                    else if even q then q else q + 1)
           in if e = 1023 \<and> 9007199254740992 \<le> m then (if neg then NegInf else PosInf)
              else Fin ((if neg then - 1 else 1) * real_of_int m * pow2 (e - 52)))"

text \<open>The exponent part \<^verbatim>\<open>e\<close>, sign, digits at the head of a string; 0 without one.\<close>

definition exponent :: "string \<Rightarrow> int" where
  "exponent s =
     (if take 1 s = ''e'' \<or> take 1 s = ''E''
      then (let t = drop 1 s;
                d = takeWhile is_digit (if take 1 t = ''-'' \<or> take 1 t = ''+'' then drop 1 t else t)
            in if d = [] then 0
               else if take 1 t = ''-'' then - digits_val d else digits_val d)
      else 0)"

text \<open>
  The number of the longest prefix that is a decimal literal (sign, \<^verbatim>\<open>Infinity\<close> or
  digits with a fraction and an exponent), NaN when no prefix is one.
\<close>

definition str_decimal :: "string \<Rightarrow> number" where
  "str_decimal s =
     (let u = (if take 1 s = ''-'' \<or> take 1 s = ''+'' then drop 1 s else s)
      in if take 8 u = ''Infinity'' then (if take 1 s = ''-'' then NegInf else PosInf)
         else let ip = takeWhile is_digit u;
                  r1 = dropWhile is_digit u;
                  fp = (if take 1 r1 = ''.'' then takeWhile is_digit (drop 1 r1) else []);
                  r2 = (if take 1 r1 = ''.'' then dropWhile is_digit (drop 1 r1) else r1)
              in if ip = [] \<and> fp = [] then NaN
                 else let k = exponent r2 - int (length fp); m = digits_val (ip @ fp)
                      in if 0 \<le> k then round_double (take 1 s = ''-'') (m * 10 ^ nat k) 1
                         else round_double (take 1 s = ''-'') m (10 ^ nat (- k)))"

text \<open>
  \<^verbatim>\<open>parseFloat(x)\<close> converts its argument to a string, skips leading white space and
  reads the longest decimal prefix. The string of a number is the shortest decimal that
  reads back as that number, \<^verbatim>\<open>Infinity\<close> or \<^verbatim>\<open>NaN\<close>: the result is the number
  itself. The string of an array is that of its elements joined by commas, where
  \<^verbatim>\<open>null\<close> and \<^verbatim>\<open>undefined\<close> are empty: the result is that of the first element.
  The strings of the other values hold no number.
\<close>

fun parseFloat :: "jsval \<Rightarrow> number" where
  "parseFloat (JNum n) = n"
| "parseFloat (JStr s) = str_decimal (strip_front white_space s)"
| "parseFloat (JArr (x # xs)) =
     (case x of JNull \<Rightarrow> NaN | JUndefined \<Rightarrow> NaN | _ \<Rightarrow> parseFloat x)"
| "parseFloat v = NaN"

section \<open>The record store\<close>

text \<open>
  The handlers reach the store through the Supabase client. A table is a list of rows,
  a row an object. Every awaited query resolves to \<^verbatim>\<open>{ data, error }\<close>; a query
  never rejects. Whether the store accepts a call is not the handlers' business: the
  state carries the outcomes of the calls to come, \<open>None\<close> for a call the store serves
  and \<open>Some message\<close> for one it fails (an empty list serves every call). A failed call
  changes no table.
\<close>

record store =
  alerts :: "obj list"
  vehicles :: "obj list"
  users :: "obj list"
  serial :: int
  clock :: string
  faults :: "string option list"

type_synonym reply = "jsval \<times> string option"

definition store_call :: "store \<Rightarrow> (store \<Rightarrow> reply \<times> store) \<Rightarrow> reply \<times> store" where
  "store_call s run =
     (case faults s of
        [] \<Rightarrow> run s
      | None # fs \<Rightarrow> run (s\<lparr>faults := fs\<rparr>)
      | Some e # fs \<Rightarrow> ((JNull, Some e), s\<lparr>faults := fs\<rparr>))"

text \<open>
  Modelled from the spec: the schema of the tables, which is not in the sources. Of
  the columns the handlers filter on, \<^verbatim>\<open>id\<close> and \<^verbatim>\<open>user_id\<close> are integers
  (``integer id''; the annotations of the routes say so too), and \<^verbatim>\<open>status\<close> and
  \<^verbatim>\<open>alert_type\<close> are text.
\<close>

definition integer_columns :: "string list" where
  "integer_columns = [''id'', ''user_id'']"

text \<open>
  \<^verbatim>\<open>.eq(col, v)\<close>. The client sends the operand as text, the string of \<open>v\<close>, and
  the store reads the text in the column's type.

  An integer as the store reads it: digits with an optional sign, blanks around them.
  The string of an integral number is its digits; the string of an array of one element
  is that of the element. The range of the column's type is not modelled: an integer
  beyond it selects no row.
\<close>

definition is_blank :: "char \<Rightarrow> bool" where
  "is_blank c = (c \<in> set [CHR 0x20, CHR 0x09, CHR 0x0A, CHR 0x0B, CHR 0x0C, CHR 0x0D])"

definition read_integer :: "string \<Rightarrow> int option" where
  "read_integer s =
     (let t = dropWhile is_blank s;
          u = (if take 1 t = ''-'' \<or> take 1 t = ''+'' then drop 1 t else t);
          d = takeWhile is_digit u
      in if d \<noteq> [] \<and> dropWhile is_blank (dropWhile is_digit u) = []
         then Some (if take 1 t = ''-'' then - digits_val d else digits_val d)
         else None)"

fun as_integer :: "jsval \<Rightarrow> int option" where
  "as_integer (JNum (Fin x)) = (if of_int \<lfloor>x\<rfloor> = x then Some \<lfloor>x\<rfloor> else None)"
| "as_integer (JStr s) = read_integer s"
| "as_integer (JArr [x]) =
     (case x of JNull \<Rightarrow> None | JUndefined \<Rightarrow> None | _ \<Rightarrow> as_integer x)"
| "as_integer v = None"

text \<open>
  The text of an operand on a text column: a string is its own text, an array that of
  its elements joined by commas, where \<^verbatim>\<open>null\<close> and \<^verbatim>\<open>undefined\<close> are
  empty. The handlers filter text columns on values of the query string only, which
  holds strings, arrays and objects: the text of a number is left out (\<open>None\<close>).
\<close>

fun as_text :: "jsval \<Rightarrow> string option"
  and joined_text :: "jsval list \<Rightarrow> string option" where
  "as_text (JStr s) = Some s"
| "as_text (JArr xs) = joined_text xs"
| "as_text (JObj ob) = Some ''[object Object]''"
| "as_text (JBool b) = Some (if b then ''true'' else ''false'')"
| "as_text JNull = Some ''null''"
| "as_text JUndefined = Some ''undefined''"
| "as_text (JNum n) = None"
| "joined_text [] = Some []"
| "joined_text (x # xs) =
     (case (if x = JNull \<or> x = JUndefined then Some [] else as_text x) of
        None \<Rightarrow> None
      | Some a \<Rightarrow>
          if xs = [] then Some a
          else (case joined_text xs of None \<Rightarrow> None | Some b \<Rightarrow> Some (a @ '','' @ b)))"

text \<open>
  The rows a filter selects: on an integer column those that hold the integer the
  operand reads as, on a text column those that hold the text of the operand.
\<close>

definition matches :: "string \<Rightarrow> jsval \<Rightarrow> obj \<Rightarrow> bool" where
  "matches col v r =
     (if col \<in> set integer_columns
      then (case as_integer v of
              None \<Rightarrow> False
            | Some n \<Rightarrow> map_of r col = Some (JNum (Fin (real_of_int n))))
      else (case as_text v of
              None \<Rightarrow> False
            | Some t \<Rightarrow> map_of r col = Some (JStr t)))"

text \<open>
  An operand that an integer column cannot read fails the whole call. Of the store's
  message, which goes on to quote the operand, this is the head.
\<close>

definition unreadable :: "string \<times> jsval \<Rightarrow> bool" where
  "unreadable f = (fst f \<in> set integer_columns \<and> as_integer (snd f) = None)"

definition invalid_input :: string where
  "invalid_input = ''invalid input syntax for type integer''"

definition eq_filter :: "string \<Rightarrow> jsval \<Rightarrow> obj list \<Rightarrow> obj list" where
  "eq_filter col v rows = filter (matches col v) rows"

text \<open>
  \<^verbatim>\<open>.single()\<close>: the one row of the result as an object; a result of no row, or of
  several, is an error and \<^verbatim>\<open>data\<close> is \<^verbatim>\<open>null\<close>.
\<close>

definition not_single :: string where
  "not_single = ''JSON object requested, multiple (or no) rows returned''"

definition single :: "obj list \<Rightarrow> reply" where
  "single rows = (case rows of [r] \<Rightarrow> (JObj r, None) | _ \<Rightarrow> (JNull, Some not_single))"

text \<open>A column of a row as the store returns it: \<^verbatim>\<open>null\<close> where the row has none.\<close>

definition js_col :: "obj \<Rightarrow> string \<Rightarrow> jsval" where
  "js_col r c = (case map_of r c of None \<Rightarrow> JNull | Some v \<Rightarrow> v)"

text \<open>
  An embedded resource \<^verbatim>\<open>alias:fk(cols)\<close>: the listed columns of the row of \<open>tbl\<close>
  that the foreign key refers to, \<^verbatim>\<open>null\<close> when there is none.
\<close>

definition embed :: "obj list \<Rightarrow> obj \<Rightarrow> string \<Rightarrow> string list \<Rightarrow> jsval" where
  "embed tbl r fk cols =
     (case find (matches ''id'' (js_col r fk)) tbl of
        None \<Rightarrow> JNull
      | Some t \<Rightarrow> JObj (map (\<lambda>c. (c, js_col t c)) cols))"

text \<open>The select lists of the handlers, each a view of an alert row in a store.\<close>

definition joined :: "store \<Rightarrow> obj \<Rightarrow> obj" where
  "joined s r =
     AList.update ''responder''
       (embed (users s) r ''assigned_responder_id''
          [''id'', ''first_name'', ''last_name'', ''user_phone_number''])
       (AList.update ''vehicle''
          (embed (vehicles s) r ''assigned_vehicle_id''
             [''id'', ''license_plate'', ''vehicle_type'', ''model''])
          (AList.update ''user''
             (embed (users s) r ''user_id''
                [''id'', ''first_name'', ''last_name'', ''email'', ''user_phone_number''])
             r))"

definition with_user :: "store \<Rightarrow> obj \<Rightarrow> obj" where
  "with_user s r =
     AList.update ''user''
       (embed (users s) r ''user_id'' [''id'', ''first_name'', ''last_name'', ''email'']) r"

definition plain :: "store \<Rightarrow> obj \<Rightarrow> obj" where
  "plain s r = r"

definition assigned_only :: "store \<Rightarrow> obj \<Rightarrow> obj" where
  "assigned_only s r = [(''assigned_vehicle_id'', js_col r ''assigned_vehicle_id'')]"

definition assignment :: "store \<Rightarrow> obj \<Rightarrow> obj" where
  "assignment s r =
     AList.update ''responder''
       (embed (users s) r ''assigned_responder_id'' [''id'', ''first_name'', ''last_name''])
       (AList.update ''vehicle''
          (embed (vehicles s) r ''assigned_vehicle_id''
             [''id'', ''license_plate'', ''vehicle_type'', ''status''])
          r)"

text \<open>
  \<^verbatim>\<open>.order('reported_at', { ascending: false })\<close>: descending, rows without a
  timestamp first (the store's default for a descending order).
\<close>

fun stamp :: "jsval \<Rightarrow> string option" where
  "stamp (JStr t) = Some t"
| "stamp v = None"

definition not_after :: "string \<Rightarrow> obj \<Rightarrow> obj \<Rightarrow> bool" where
  "not_after col a b =
     (case stamp (js_col a col) of
        None \<Rightarrow> True
      | Some x \<Rightarrow> (case stamp (js_col b col) of None \<Rightarrow> False | Some y \<Rightarrow> y \<le> x))"

fun insert_desc :: "string \<Rightarrow> obj \<Rightarrow> obj list \<Rightarrow> obj list" where
  "insert_desc col r [] = [r]"
| "insert_desc col r (x # xs) =
     (if not_after col r x then r # x # xs else x # insert_desc col r xs)"

definition order_desc :: "string \<Rightarrow> obj list \<Rightarrow> obj list" where
  "order_desc col rows = foldr (insert_desc col) rows []"

subsection \<open>The queries the handlers issue\<close>

text \<open>
  \<^verbatim>\<open>from('alerts').select(..).order(..)\<close> with the \<^verbatim>\<open>.eq\<close> filters the handler
  added, awaited.
\<close>

definition select_alerts :: "(string \<times> jsval) list \<Rightarrow> store \<Rightarrow> reply \<times> store" where
  "select_alerts filters s =
     store_call s (\<lambda>s1.
       if list_ex unreadable filters then ((JNull, Some invalid_input), s1)
       else ((JArr (map (\<lambda>r. JObj (joined s1 r))
                (order_desc ''reported_at''
                   (foldl (\<lambda>rows (c, v). eq_filter c v rows) (alerts s1) filters))),
              None), s1))"

text \<open>
  \<^verbatim>\<open>from('alerts').select(view).eq('id', i).single()\<close>, where the id of the
  route is the integer \<open>i\<close>.
\<close>

definition select_alert :: "(store \<Rightarrow> obj \<Rightarrow> obj) \<Rightarrow> int \<Rightarrow> store \<Rightarrow> reply \<times> store" where
  "select_alert view i s =
     store_call s (\<lambda>s1.
       (single (map (view s1) (eq_filter ''id'' (JNum (Fin (real_of_int i))) (alerts s1))), s1))"

text \<open>
  Modelled from the spec: the schema of the alerts table is not in the sources. The
  store assigns the id and the creation time \<^verbatim>\<open>reported_at\<close>; an alert starts with no
  vehicle and no responder.
\<close>

definition alert_defaults :: "store \<Rightarrow> obj" where
  "alert_defaults s =
     [(''id'', JNum (Fin (real_of_int (serial s)))),
      (''reported_at'', JStr (clock s)),
      (''assigned_vehicle_id'', JNull),
      (''assigned_responder_id'', JNull)]"

text \<open>\<^verbatim>\<open>from('alerts').insert([alertData]).select(view).single()\<close>.\<close>

definition insert_alert :: "obj \<Rightarrow> (store \<Rightarrow> obj \<Rightarrow> obj) \<Rightarrow> store \<Rightarrow> reply \<times> store" where
  "insert_alert alertData view s =
     store_call s (\<lambda>s1.
       let r = AList.merge (alert_defaults s1) (wire_props alertData);
           s2 = s1\<lparr>alerts := alerts s1 @ [r], serial := serial s1 + 1\<rparr>
       in (single [view s2 r], s2))"

text \<open>
  \<^verbatim>\<open>.update(payload).eq(col, v)\<close> on a table: the columns of the payload the
  store has read overwrite those of every matching row.
\<close>

definition set_columns :: "string \<Rightarrow> jsval \<Rightarrow> obj \<Rightarrow> obj list \<Rightarrow> obj list" where
  "set_columns col v payload rows =
     map (\<lambda>x. if matches col v x then AList.merge x payload else x) rows"

text \<open>
  \<^verbatim>\<open>from('alerts').update(updateData).eq('id', i).select(view).single()\<close>: the
  updated row is returned; when not exactly one row matches, the store answers the
  error of \<^verbatim>\<open>.single()\<close> and keeps no change.
\<close>

definition update_alert :: "obj \<Rightarrow> int \<Rightarrow> (store \<Rightarrow> obj \<Rightarrow> obj) \<Rightarrow> store \<Rightarrow> reply \<times> store" where
  "update_alert updateData i view s =
     store_call s (\<lambda>s1.
       case eq_filter ''id'' (JNum (Fin (real_of_int i))) (alerts s1) of
         [r] \<Rightarrow>
           let payload = wire_props updateData;
               s2 = s1\<lparr>alerts := set_columns ''id'' (JNum (Fin (real_of_int i))) payload (alerts s1)\<rparr>
           in (single [view s2 (AList.merge r payload)], s2)
       | _ \<Rightarrow> ((JNull, Some not_single), s1))"

text \<open>
  \<^verbatim>\<open>from('vehicles').update({ status: st }).eq('id', v)\<close>: every vehicle row of that
  id gets the status; no row is returned.
\<close>

definition update_vehicle :: "string \<Rightarrow> jsval \<Rightarrow> store \<Rightarrow> reply \<times> store" where
  "update_vehicle st v s =
     store_call s (\<lambda>s1.
       if unreadable (''id'', v) then ((JNull, Some invalid_input), s1)
       else ((JNull, None),
             s1\<lparr>vehicles :=
                  set_columns ''id'' v (wire_props [(''status'', JStr st)]) (vehicles s1)\<rparr>))"

section \<open>The request handlers\<close>

text \<open>
  \<^verbatim>\<open>req.user\<close>, set by the authentication middleware (\<^verbatim>\<open>router.use\<close>) before
  any handler runs: the verified caller's id and role. The middleware is not in the
  sources; the handlers read nothing else of it.
\<close>

record user =
  uid :: int
  role :: string

text \<open>\<^verbatim>\<open>res.status(code).json(body)\<close>; \<^verbatim>\<open>res.json(body)\<close> is status 200.\<close>

datatype response = Response nat jsval

definition message :: "nat \<Rightarrow> string \<Rightarrow> response" where
  "message code m = Response code (JObj [(''message'', JStr m)])"

text \<open>The \<^verbatim>\<open>catch\<close> block of every handler: \<^verbatim>\<open>error.message || 'Server error'\<close>.\<close>

definition server_error :: "string \<Rightarrow> response" where
  "server_error e = message 500 (if e = [] then ''Server error'' else e)"

definition validAlertTypes :: "string list" where
  "validAlertTypes = [''medical'', ''fire'', ''accident'', ''crime'', ''natural_disaster'', ''other'']"

definition validSeverities :: "string list" where
  "validSeverities = [''low'', ''medium'', ''high'', ''critical'']"

definition validStatuses :: "string list" where
  "validStatuses = [''pending'', ''responding'', ''resolved'', ''cancelled'']"

subsection \<open>GET / (List)\<close>

definition get_alerts :: "store \<Rightarrow> user \<Rightarrow> obj \<Rightarrow> response \<times> store" where
  "get_alerts s u query =
     (let status = js_get query ''status'';
          alert_type = js_get query ''alert_type'';
          user_id = js_get query ''user_id'';
          q1 = (if truthy status then [(''status'', status)] else []);
          q2 = q1 @ (if truthy alert_type then [(''alert_type'', alert_type)] else []);
          q3 = q2 @ (if role u = ''user'' then [(''user_id'', JNum (Fin (real_of_int (uid u))))]
                     else if truthy user_id then [(''user_id'', user_id)]
                     else [])
      in case select_alerts q3 s of
           ((data, Some e), s1) \<Rightarrow> (server_error e, s1)
         | ((data, None), s1) \<Rightarrow> (Response 200 data, s1))"

subsection \<open>GET /:id (Get)\<close>

definition get_alert :: "store \<Rightarrow> user \<Rightarrow> int \<Rightarrow> response \<times> store" where
  "get_alert s u i =
     (case select_alert joined i s of
        ((data, Some e), s1) \<Rightarrow> (server_error e, s1)
      | ((data, None), s1) \<Rightarrow>
          if \<not> truthy data then (message 404 ''Alert not found'', s1)
          else if role u = ''user''
          then (case js_prop data ''user_id'' of
                  Inl e \<Rightarrow> (server_error e, s1)
                | Inr owner \<Rightarrow>
                    if \<not> strict_eq owner (JNum (Fin (real_of_int (uid u))))
                    then (message 403 ''Access denied'', s1)
                    else (Response 200 data, s1))
          else (Response 200 data, s1))"

subsection \<open>POST / (Create)\<close>

text \<open>
  The object literal \<^verbatim>\<open>alertData\<close>, its properties evaluated in order; a TypeError
  of a \<^verbatim>\<open>trim\<close> call leaves the \<^verbatim>\<open>try\<close> block.
\<close>

definition alert_data :: "user \<Rightarrow> obj \<Rightarrow> string + obj" where
  "alert_data u body =
     (let alert_type = js_get body ''alert_type'';
          severity = js_get body ''severity'';
          title = js_get body ''title'';
          description = js_get body ''description'';
          location = js_get body ''location'';
          latitude = js_get body ''latitude'';
          longitude = js_get body ''longitude'';
          image_url = js_get body ''image_url''
      in case call_trim ''title.trim'' title of
           Inl e \<Rightarrow> Inl e
         | Inr t \<Rightarrow>
             (case opt_call_trim ''description?.trim'' description of
                Inl e \<Rightarrow> Inl e
              | Inr d \<Rightarrow>
                  (case call_trim ''location.trim'' location of
                     Inl e \<Rightarrow> Inl e
                   | Inr l \<Rightarrow>
                       Inr [(''user_id'', JNum (Fin (real_of_int (uid u)))),
                            (''alert_type'', alert_type),
                            (''severity'', severity),
                            (''title'', t),
                            (''description'', js_or d JNull),
                            (''location'', l),
                            (''latitude'',
                               if truthy latitude then JNum (parseFloat latitude) else JNull),
                            (''longitude'',
                               if truthy longitude then JNum (parseFloat longitude) else JNull),
                            (''image_url'', js_or image_url JNull),
                            (''status'', JStr ''pending'')])))"

definition create_alert :: "store \<Rightarrow> user \<Rightarrow> obj \<Rightarrow> response \<times> store" where
  "create_alert s u body =
     (let alert_type = js_get body ''alert_type'';
          severity = js_get body ''severity'';
          title = js_get body ''title'';
          location = js_get body ''location''
      in if \<not> truthy alert_type \<or> \<not> truthy severity \<or> \<not> truthy title \<or> \<not> truthy location
         then (message 400 ''Missing required fields'', s)
         else if \<not> js_includes validAlertTypes alert_type
         then (message 400 ''Invalid alert type'', s)
         else if \<not> js_includes validSeverities severity
         then (message 400 ''Invalid severity level'', s)
         else (case alert_data u body of
                 Inl e \<Rightarrow> (server_error e, s)
               | Inr alertData \<Rightarrow>
                   (case insert_alert alertData with_user s of
                      ((data, Some e), s1) \<Rightarrow> (server_error e, s1)
                    | ((data, None), s1) \<Rightarrow> (Response 201 data, s1))))"

subsection \<open>PUT /:id (Update)\<close>

text \<open>
  \<^verbatim>\<open>{ ...req.body, updated_at: now }\<close>, then the properties whose value is
  \<^verbatim>\<open>undefined\<close> deleted.
\<close>

definition update_data :: "string \<Rightarrow> obj \<Rightarrow> obj" where
  "update_data now body =
     filter (\<lambda>(k, v). v \<noteq> JUndefined) (AList.update ''updated_at'' (JStr now) (AList.clearjunk body))"

definition put_alert :: "string \<Rightarrow> store \<Rightarrow> user \<Rightarrow> int \<Rightarrow> obj \<Rightarrow> response \<times> store" where
  "put_alert now s u i body =
     (if \<not> js_includes [''admin'', ''dispatcher''] (JStr (role u))
      then (message 403 ''Access denied'', s)
      else (case update_alert (update_data now body) i plain s of
              ((data, Some e), s1) \<Rightarrow> (server_error e, s1)
            | ((data, None), s1) \<Rightarrow>
                if \<not> truthy data then (message 404 ''Alert not found'', s1)
                else (Response 200 data, s1)))"

subsection \<open>PATCH /:id/status (SetStatus)\<close>

text \<open>
  One of the two statements
  \<^verbatim>\<open>if (status === trigger && data.assigned_vehicle_id) await ...update({ status: st })\<close>;
  the outcome of the awaited write is not read.
\<close>

definition reconcile :: "string \<Rightarrow> string \<Rightarrow> jsval \<Rightarrow> jsval \<Rightarrow> store \<Rightarrow> string + store" where
  "reconcile trigger st status data s =
     (if strict_eq status (JStr trigger)
      then (case js_prop data ''assigned_vehicle_id'' of
              Inl e \<Rightarrow> Inl e
            | Inr v \<Rightarrow> if truthy v then Inr (snd (update_vehicle st v s)) else Inr s)
      else Inr s)"

definition patch_status :: "string \<Rightarrow> store \<Rightarrow> user \<Rightarrow> int \<Rightarrow> obj \<Rightarrow> response \<times> store" where
  "patch_status now s u i body =
     (let status = js_get body ''status''
      in if \<not> js_includes validStatuses status
         then (message 400 ''Invalid status'', s)
         else if \<not> js_includes [''admin'', ''dispatcher'', ''rescuer''] (JStr (role u))
         then (message 403 ''Access denied'', s)
         else (case update_alert [(''status'', status), (''updated_at'', JStr now)] i plain s of
                 ((data, Some e), s1) \<Rightarrow> (server_error e, s1)
               | ((data, None), s1) \<Rightarrow>
                   (case reconcile ''responding'' ''responding'' status data s1 of
                      Inl e \<Rightarrow> (server_error e, s1)
                    | Inr s2 \<Rightarrow>
                        (case reconcile ''resolved'' ''available'' status data s2 of
                           Inl e \<Rightarrow> (server_error e, s2)
                         | Inr s3 \<Rightarrow> (Response 200 data, s3)))))"

subsection \<open>PATCH /:id/assign (Assign)\<close>

definition patch_assign :: "string \<Rightarrow> store \<Rightarrow> user \<Rightarrow> int \<Rightarrow> obj \<Rightarrow> response \<times> store" where
  "patch_assign now s u i body =
     (let vehicle_id = js_get body ''vehicle_id'';
          responder_id = js_get body ''responder_id''
      in if \<not> js_includes [''admin'', ''dispatcher''] (JStr (role u))
         then (message 403 ''Access denied'', s)
         else (case select_alert assigned_only i s of
                 ((currentAlert, Some e), s1) \<Rightarrow> (server_error e, s1)
               | ((currentAlert, None), s1) \<Rightarrow>
                   (case update_alert
                           [(''assigned_vehicle_id'', js_or vehicle_id JNull),
                            (''assigned_responder_id'', js_or responder_id JNull),
                            (''updated_at'', JStr now)] i assignment s1 of
                      ((updatedAlert, Some e), s2) \<Rightarrow> (server_error e, s2)
                    | ((updatedAlert, None), s2) \<Rightarrow>
                        let old = (case js_prop currentAlert ''assigned_vehicle_id'' of
                                     Inl e \<Rightarrow> JUndefined | Inr v \<Rightarrow> v);
                            s3 = (if truthy old \<and> \<not> strict_eq old vehicle_id
                                  then snd (update_vehicle ''available'' old s2) else s2);
                            s4 = (if truthy vehicle_id
                                  then snd (update_vehicle ''assigned'' vehicle_id s3) else s3)
                        in (Response 200 updatedAlert, s4))))"

text \<open>The two parts of a response.\<close>

fun status_of :: "response \<Rightarrow> nat" where
  "status_of (Response code body) = code"

fun body_of :: "response \<Rightarrow> jsval" where
  "body_of (Response code body) = body"

section \<open>Sample data\<close>

text \<open>
  The scenario of the specification: alert 1, reported by user 5, has vehicle 10
  assigned; vehicle 20 is free; alert 2 belongs to user 6 and has no vehicle.
\<close>

definition alert1 :: obj where
  "alert1 =
     [(''id'', JNum (Fin 1)), (''user_id'', JNum (Fin 5)), (''alert_type'', JStr ''fire''),
      (''severity'', JStr ''high''), (''title'', JStr ''Warehouse fire''),
      (''description'', JNull), (''location'', JStr ''Pier 4''),
      (''latitude'', JNull), (''longitude'', JNull), (''image_url'', JNull),
      (''status'', JStr ''pending''), (''assigned_vehicle_id'', JNum (Fin 10)),
      (''assigned_responder_id'', JNull),
      (''reported_at'', JStr ''2025-03-01T08:00:00.000Z''),
      (''updated_at'', JStr ''2025-03-01T08:00:00.000Z'')]"

definition alert2 :: obj where
  "alert2 =
     [(''id'', JNum (Fin 2)), (''user_id'', JNum (Fin 6)), (''alert_type'', JStr ''medical''),
      (''severity'', JStr ''low''), (''title'', JStr ''Sprained ankle''),
      (''description'', JNull), (''location'', JStr ''Gym''),
      (''latitude'', JNull), (''longitude'', JNull), (''image_url'', JNull),
      (''status'', JStr ''pending''), (''assigned_vehicle_id'', JNull),
      (''assigned_responder_id'', JNull),
      (''reported_at'', JStr ''2025-03-01T09:30:00.000Z''),
      (''updated_at'', JStr ''2025-03-01T09:30:00.000Z'')]"

definition vehicle :: "real \<Rightarrow> string \<Rightarrow> obj" where
  "vehicle n st =
     [(''id'', JNum (Fin n)), (''license_plate'', JStr ''ABC 123''),
      (''vehicle_type'', JStr ''ambulance''), (''model'', JStr ''Hiace''),
      (''status'', JStr st)]"

definition person :: "real \<Rightarrow> string \<Rightarrow> obj" where
  "person n r =
     [(''id'', JNum (Fin n)), (''first_name'', JStr ''Ana''), (''last_name'', JStr ''Cruz''),
      (''email'', JStr ''ana@example.org''), (''user_phone_number'', JNull),
      (''role'', JStr r)]"

definition station :: store where
  "station =
     \<lparr>alerts = [alert1, alert2],
      vehicles = [vehicle 10 ''assigned'', vehicle 20 ''available''],
      users = [person 5 ''user'', person 6 ''user'', person 9 ''dispatcher''],
      serial = 3,
      clock = ''2025-03-02T10:00:00.000Z'',
      faults = []\<rparr>"

definition citizen :: user where
  "citizen = \<lparr>uid = 5, role = ''user''\<rparr>"

definition dispatcher :: user where
  "dispatcher = \<lparr>uid = 9, role = ''dispatcher''\<rparr>"

definition noon :: string where
  "noon = ''2025-03-02T12:00:00.000Z''"

text \<open>The station with one more vehicle, whose id is 0.\<close>

definition yard :: store where
  "yard = station\<lparr>vehicles := vehicle 0 ''available'' # vehicles station\<rparr>"

text \<open>The station when the store serves \<open>n\<close> calls and fails the two after them.\<close>

definition outage :: "nat \<Rightarrow> store" where
  "outage n =
     station\<lparr>faults := replicate n None @ [Some ''connection lost'', Some ''connection lost'']\<rparr>"

text \<open>A Create payload with the given title and coordinates.\<close>

definition report :: "jsval \<Rightarrow> jsval \<Rightarrow> jsval \<Rightarrow> obj" where
  "report title latitude longitude =
     [(''alert_type'', JStr ''accident''), (''severity'', JStr ''high''),
      (''title'', title), (''location'', JStr ''EDSA Guadalupe''),
      (''latitude'', latitude), (''longitude'', longitude)]"

section \<open>Numbers and operands read from text\<close>

text \<open>
  \<^verbatim>\<open>parseFloat\<close> on strings: the nearest double of a decimal (14.5547 is not a
  double), the longest prefix that is one, and the values that hold no number.
\<close>

lemma parseFloat_reads_decimals:
  "parseFloat (JStr ''14.5'') = Fin 14.5
   \<and> parseFloat (JStr ''  -0.25abc'') = Fin (- 0.25)
   \<and> parseFloat (JStr ''14.5547'') = Fin (4096783843530585 / 281474976710656)
   \<and> parseFloat (JStr ''1e3'') = Fin 1000
   \<and> parseFloat (JStr ''.5'') = Fin 0.5
   \<and> parseFloat (JStr ''0'') = Fin 0
   \<and> parseFloat (JStr ''Infinity'') = PosInf
   \<and> parseFloat (JStr ''north'') = NaN
   \<and> parseFloat (JArr [JStr ''7'', JNum (Fin 8)]) = Fin 7
   \<and> parseFloat (JBool True) = NaN
   \<and> parseFloat (JObj []) = NaN"
  by code_simp

text \<open>A decimal beyond the largest double reads as \<^verbatim>\<open>Infinity\<close>.\<close>

lemma parseFloat_beyond_range: "parseFloat (JStr ''1e400'') = PosInf"
  by code_simp

text \<open>
  A dispatcher lists the alerts of user 6: the operand of the query string is the text
  \<^verbatim>\<open>6\<close>, which the integer column reads. An operand that is no integer fails the
  call. A text column compares the text of the operand.
\<close>

lemma list_reads_operands:
  "fst (get_alerts station dispatcher [(''user_id'', JStr ''6'')])
     = Response 200 (JArr [JObj (joined station alert2)])
   \<and> fst (get_alerts station dispatcher [(''user_id'', JStr ''abc'')])
     = server_error invalid_input
   \<and> fst (get_alerts station dispatcher [(''status'', JArr [JStr ''pending''])])
     = Response 200 (JArr [JObj (joined station alert2), JObj (joined station alert1)])
   \<and> fst (get_alerts station dispatcher [(''status'', JStr ''resolved'')])
     = Response 200 (JArr [])"
  by code_simp

section \<open>Objects and tables\<close>

lemma js_get_update: "js_get (AList.update k v r) c = (if c = k then v else js_get r c)"
  by (simp add: js_get_def update_conv')

lemma js_get_merge:
  "js_get (AList.merge r p) c = (case map_of p c of None \<Rightarrow> js_get r c | Some v \<Rightarrow> v)"
  by (simp add: js_get_def merge_conv' map_add_def split: option.splits)

text \<open>An integer is read as itself, so a route's id and a caller's id are readable.\<close>

lemma as_integer_int: "as_integer (JNum (Fin (real_of_int n))) = Some n"
  by simp

lemma readable_int: "\<not> unreadable (c, JNum (Fin (real_of_int n)))"
  by (simp add: unreadable_def)

lemma matches_js_get:
  "c \<in> set integer_columns \<Longrightarrow> matches c (JNum (Fin (real_of_int n))) r \<Longrightarrow>
   js_get r c = JNum (Fin (real_of_int n))"
  by (simp add: matches_def js_get_def)

lemma matches_unique:
  "matches ''id'' (JNum (Fin (real_of_int v))) r \<Longrightarrow>
   matches ''id'' (JNum (Fin (real_of_int w))) r \<Longrightarrow> v = w"
  by (simp add: matches_def integer_columns_def)

lemma matches_merge:
  "map_of p c = None \<Longrightarrow> matches c v (AList.merge r p) = matches c v r"
  by (simp add: matches_def merge_conv' map_add_def split: option.splits jsval.splits)

text \<open>An update that leaves the filtered column alone changes the rows it selected.\<close>

lemma eq_filter_set_columns:
  "map_of p c = None \<Longrightarrow>
   eq_filter c v (set_columns c v p rows) = map (\<lambda>x. AList.merge x p) (eq_filter c v rows)"
  by (induction rows) (simp_all add: eq_filter_def set_columns_def matches_merge)

lemma set_columns_hit:
  "r \<in> set (set_columns c v p rows) \<Longrightarrow> map_of p c = None \<Longrightarrow> matches c v r \<Longrightarrow>
   \<exists>x \<in> set rows. r = AList.merge x p"
  by (auto simp: set_columns_def matches_merge split: if_splits)

lemma set_columns_miss:
  "r \<in> set (set_columns c v p rows) \<Longrightarrow> map_of p c = None \<Longrightarrow> \<not> matches c v r \<Longrightarrow>
   r \<in> set rows"
  by (auto simp: set_columns_def matches_merge split: if_splits)

lemma set_columns_unread: "unreadable (c, v) \<Longrightarrow> set_columns c v p rows = rows"
  by (induction rows) (simp_all add: set_columns_def matches_def unreadable_def)

lemma set_columns_ids:
  "map (\<lambda>r. js_get r ''id'') (set_columns ''id'' v [(''status'', w)] rows)
     = map (\<lambda>r. js_get r ''id'') rows"
  by (induction rows) (simp_all add: set_columns_def js_get_update)

text \<open>What the store reads of a payload.\<close>

lemma js_or_defined: "js_or a JNull \<noteq> JUndefined"
  by (cases a) (simp_all add: js_or_def)

lemma js_or_truthy: "truthy a \<Longrightarrow> js_or a b = a"
  by (simp add: js_or_def)

lemma wire_props_keys: "fst ` set (wire_props ob) \<subseteq> fst ` set ob"
proof (induction ob)
  case Nil
  then show ?case by simp
next
  case (Cons x ob)
  then show ?case by (cases x) auto
qed

lemma map_of_wire_props:
  "distinct (map fst ob) \<Longrightarrow>
   map_of (wire_props ob) k =
     (case map_of ob k of
        None \<Rightarrow> None
      | Some v \<Rightarrow> if v = JUndefined then None else Some (wire v))"
proof (induction ob)
  case Nil
  then show ?case by simp
next
  case (Cons x ob)
  obtain c v where x: "x = (c, v)"
    by (cases x)
  from Cons.prems x have "c \<notin> fst ` set (wire_props ob)"
    using wire_props_keys [of ob] by auto
  then have "map_of (wire_props ob) c = None"
    by (simp add: map_of_eq_None_iff)
  with Cons x show ?case
    by simp
qed

lemma set_insert_desc: "set (insert_desc col r xs) = insert r (set xs)"
  by (induction xs) auto

lemma set_order_desc: "set (order_desc col rows) = set rows"
  by (induction rows) (simp_all add: order_desc_def set_insert_desc)

lemma filters_last:
  "set (foldl (\<lambda>rows (c, v). eq_filter c v rows) rows (fs @ [(c, v)])) \<subseteq> {r. matches c v r}"
  by (auto simp: eq_filter_def)

lemma js_get_joined_user_id: "js_get (joined s r) ''user_id'' = js_get r ''user_id''"
  by (simp add: joined_def js_get_update)

section \<open>Store calls that are served\<close>

lemma select_alert_served:
  "faults s = [] \<Longrightarrow>
   select_alert view i s =
     (single (map (view s) (eq_filter ''id'' (JNum (Fin (real_of_int i))) (alerts s))), s)"
  by (simp add: select_alert_def store_call_def)

lemma update_alert_served:
  "faults s = [] \<Longrightarrow> eq_filter ''id'' (JNum (Fin (real_of_int i))) (alerts s) = [a] \<Longrightarrow>
   update_alert p i view s =
     ((JObj (view (s\<lparr>alerts :=
                      set_columns ''id'' (JNum (Fin (real_of_int i))) (wire_props p) (alerts s)\<rparr>)
               (AList.merge a (wire_props p))), None),
      s\<lparr>alerts := set_columns ''id'' (JNum (Fin (real_of_int i))) (wire_props p) (alerts s)\<rparr>)"
  by (simp add: update_alert_def store_call_def single_def Let_def)

text \<open>
  A served write to vehicles sets the status of the rows of the id; where the id is
  not readable these are no rows, and the store's error changes nothing.
\<close>

lemma update_vehicle_served:
  "faults s = [] \<Longrightarrow>
   snd (update_vehicle st v s) =
     s\<lparr>vehicles := set_columns ''id'' v [(''status'', JStr st)] (vehicles s)\<rparr>"
  by (simp add: update_vehicle_def store_call_def set_columns_unread)


text \<open>A write to an alert that reports no error returns the row.\<close>

lemma update_alert_object:
  "update_alert p i view s = ((data, None), s1) \<Longrightarrow> \<exists>r. data = JObj r"
  by (auto simp: update_alert_def store_call_def single_def Let_def
      split: list.splits option.splits)

text \<open>The writes to vehicles leave the alerts alone, served or not.\<close>

lemma update_vehicle_alerts: "alerts (snd (update_vehicle st v s)) = alerts s"
  by (simp add: update_vehicle_def store_call_def split: list.splits option.splits)

lemma reconcile_object:
  "\<exists>s'. reconcile tr st status (JObj r) s = Inr s' \<and> alerts s' = alerts s"
  by (simp add: reconcile_def js_prop_def update_vehicle_alerts)

section \<open>Assign\<close>

text \<open>The store after an assignment that replaces one vehicle by another.\<close>

lemma assign_released:
  assumes "role u = ''admin'' \<or> role u = ''dispatcher''"
    and "faults s = []"
    and "eq_filter ''id'' (JNum (Fin (real_of_int i))) (alerts s) = [a]"
    and "map_of a ''assigned_vehicle_id'' = Some (JNum (Fin (real_of_int v_old)))"
    and "js_get body ''vehicle_id'' = JNum (Fin (real_of_int v_new))"
    and "v_old \<noteq> v_new" and "v_old \<noteq> 0" and "v_new \<noteq> 0"
  shows "snd (patch_assign now s u i body) =
     s\<lparr>alerts := set_columns ''id'' (JNum (Fin (real_of_int i)))
                   [(''assigned_vehicle_id'', JNum (Fin (real_of_int v_new))),
                    (''assigned_responder_id'', wire (js_or (js_get body ''responder_id'') JNull)),
                    (''updated_at'', JStr now)] (alerts s),
        vehicles := set_columns ''id'' (JNum (Fin (real_of_int v_new))) [(''status'', JStr ''assigned'')]
                      (set_columns ''id'' (JNum (Fin (real_of_int v_old))) [(''status'', JStr ''available'')]
                         (vehicles s))\<rparr>"
  using assms
  by (simp add: patch_assign_def js_includes_def Let_def select_alert_served update_alert_served
      update_vehicle_served single_def assigned_only_def js_col_def js_prop_def js_get_def
      js_or_defined js_or_truthy)

text \<open>
  C1 (as amended). An admin or a dispatcher assigns vehicle \<open>v_new\<close> to an alert that
  has vehicle \<open>v_old\<close>, the two ids different and neither of them 0, and the store
  serves every call. Afterwards the alert's \<^verbatim>\<open>assigned_vehicle_id\<close> is \<open>v_new\<close>,
  every vehicle row of id \<open>v_old\<close> has status \<^verbatim>\<open>available\<close>, every vehicle row of
  id \<open>v_new\<close> has status \<^verbatim>\<open>assigned\<close>, and the vehicle table holds the same ids.
\<close>

theorem assign_replaces_vehicle:
  assumes "role u = ''admin'' \<or> role u = ''dispatcher''"
    and "faults s = []"
    and "eq_filter ''id'' (JNum (Fin (real_of_int i))) (alerts s) = [a]"
    and "map_of a ''assigned_vehicle_id'' = Some (JNum (Fin (real_of_int v_old)))"
    and "js_get body ''vehicle_id'' = JNum (Fin (real_of_int v_new))"
    and "v_old \<noteq> v_new" and "v_old \<noteq> 0" and "v_new \<noteq> 0"
  shows "map (\<lambda>r. js_get r ''assigned_vehicle_id'')
           (eq_filter ''id'' (JNum (Fin (real_of_int i))) (alerts (snd (patch_assign now s u i body))))
         = [JNum (Fin (real_of_int v_new))]
       \<and> (\<forall>r \<in> set (vehicles (snd (patch_assign now s u i body))).
             matches ''id'' (JNum (Fin (real_of_int v_old))) r \<longrightarrow> js_get r ''status'' = JStr ''available'')
       \<and> (\<forall>r \<in> set (vehicles (snd (patch_assign now s u i body))).
             matches ''id'' (JNum (Fin (real_of_int v_new))) r \<longrightarrow> js_get r ''status'' = JStr ''assigned'')
       \<and> map (\<lambda>r. js_get r ''id'') (vehicles (snd (patch_assign now s u i body)))
         = map (\<lambda>r. js_get r ''id'') (vehicles s)"
proof -
  let ?s' = "snd (patch_assign now s u i body)"
  let ?old = "JNum (Fin (real_of_int v_old))" and ?new = "JNum (Fin (real_of_int v_new))"
  let ?p = "[(''assigned_vehicle_id'', ?new),
             (''assigned_responder_id'', wire (js_or (js_get body ''responder_id'') JNull)),
             (''updated_at'', JStr now)]"
  let ?free = "[(''status'', JStr ''available'')]" and ?busy = "[(''status'', JStr ''assigned'')]"
  have s': "?s' = s\<lparr>alerts := set_columns ''id'' (JNum (Fin (real_of_int i))) ?p (alerts s),
        vehicles := set_columns ''id'' ?new ?busy (set_columns ''id'' ?old ?free (vehicles s))\<rparr>"
    using assms by (rule assign_released)
  have alert: "map (\<lambda>r. js_get r ''assigned_vehicle_id'')
      (eq_filter ''id'' (JNum (Fin (real_of_int i))) (alerts ?s')) = [?new]"
    using assms(3) by (simp add: s' eq_filter_set_columns js_get_update)
  have released: "js_get r ''status'' = JStr ''available''"
    if r: "r \<in> set (vehicles ?s')" and old: "matches ''id'' ?old r" for r
  proof -
    from old assms(6) have "\<not> matches ''id'' ?new r"
      by (auto dest: matches_unique)
    with r have "r \<in> set (set_columns ''id'' ?old ?free (vehicles s))"
      by (auto simp: s' dest: set_columns_miss)
    with old obtain x where "r = AList.merge x ?free"
      by (auto dest: set_columns_hit)
    then show ?thesis
      by (simp add: js_get_update)
  qed
  have claimed: "js_get r ''status'' = JStr ''assigned''"
    if r: "r \<in> set (vehicles ?s')" and new: "matches ''id'' ?new r" for r
  proof -
    from r new obtain x where "r = AList.merge x ?busy"
      by (auto simp: s' dest: set_columns_hit)
    then show ?thesis
      by (simp add: js_get_update)
  qed
  have kept: "map (\<lambda>r. js_get r ''id'') (vehicles ?s') = map (\<lambda>r. js_get r ''id'') (vehicles s)"
    by (simp add: s' set_columns_ids)
  from alert released claimed kept show ?thesis
    by blast
qed

text \<open>
  The scenario of the specification: the dispatcher moves alert 1 from vehicle 10 to
  vehicle 20.
\<close>

theorem assign_replaces_vehicle_witness:
  "role dispatcher = ''dispatcher''
   \<and> eq_filter ''id'' (JNum (Fin (real_of_int 1))) (alerts station) = [alert1]
   \<and> map_of alert1 ''assigned_vehicle_id'' = Some (JNum (Fin (real_of_int 10)))
   \<and> map (\<lambda>r. js_get r ''assigned_vehicle_id'')
        (eq_filter ''id'' (JNum (Fin (real_of_int 1)))
           (alerts (snd (patch_assign noon station dispatcher 1 [(''vehicle_id'', JNum (Fin 20))]))))
       = [JNum (Fin (real_of_int 20))]
   \<and> map (\<lambda>r. (js_get r ''id'', js_get r ''status''))
        (vehicles (snd (patch_assign noon station dispatcher 1 [(''vehicle_id'', JNum (Fin 20))])))
       = [(JNum (Fin 10), JStr ''available''), (JNum (Fin 20), JStr ''assigned'')]"
  using assign_replaces_vehicle
    [of dispatcher station 1 alert1 10 "[(''vehicle_id'', JNum (Fin 20))]" 20 noon]
  by code_simp

text \<open>
  C1 as stated fails for the id 0, which \<^verbatim>\<open>vehicle_id || null\<close> and
  \<^verbatim>\<open>if (vehicle_id)\<close> read as no vehicle: assigning vehicle 0 to alert 1 clears the
  alert's vehicle, and vehicle 0 stays \<^verbatim>\<open>available\<close>.
\<close>

theorem assign_zero_counterexample:
  "map (\<lambda>r. js_get r ''assigned_vehicle_id'') (eq_filter ''id'' (JNum (Fin 1)) (alerts yard))
     = [JNum (Fin 10)]
   \<and> status_of (fst (patch_assign noon yard dispatcher 1 [(''vehicle_id'', JNum (Fin 0))])) = 200
   \<and> map (\<lambda>r. js_get r ''assigned_vehicle_id'')
       (eq_filter ''id'' (JNum (Fin 1))
          (alerts (snd (patch_assign noon yard dispatcher 1 [(''vehicle_id'', JNum (Fin 0))]))))
     = [JNull]
   \<and> map (\<lambda>r. (js_get r ''id'', js_get r ''status''))
        (vehicles (snd (patch_assign noon yard dispatcher 1 [(''vehicle_id'', JNum (Fin 0))])))
       = [(JNum (Fin 0), JStr ''available''), (JNum (Fin 10), JStr ''available''), (JNum (Fin 20), JStr ''available'')]"
  by code_simp

section \<open>List\<close>

text \<open>
  C3. For a caller of role \<^verbatim>\<open>user\<close>, whatever the query asks for: when the store
  fails the read the answer is the server error, and otherwise it is a list of alerts
  every one of which has the caller's id as \<^verbatim>\<open>user_id\<close>.
\<close>

theorem list_own_alerts_only:
  assumes "role u = ''user''"
  shows "case faults s of
           Some e # fs \<Rightarrow> fst (get_alerts s u query) = server_error e
         | _ \<Rightarrow> (\<exists>rows. fst (get_alerts s u query) = Response 200 (JArr (map JObj rows))
                \<and> (\<forall>r \<in> set rows. js_get r ''user_id'' = JNum (Fin (real_of_int (uid u)))))"
proof -
  define q where "q =
     (if truthy (js_get query ''status'') then [(''status'', js_get query ''status'')] else [])
     @ (if truthy (js_get query ''alert_type'')
        then [(''alert_type'', js_get query ''alert_type'')] else [])"
  define own where "own = (''user_id'', JNum (Fin (real_of_int (uid u))))"
  have sel: "get_alerts s u query =
     (case select_alerts (q @ [own]) s of
           ((data, Some e), s1) \<Rightarrow> (server_error e, s1)
         | ((data, None), s1) \<Rightarrow> (Response 200 data, s1))"
    using assms by (simp add: get_alerts_def Let_def q_def own_def)
  have own_rows: "\<forall>r \<in> set (map (joined t) (order_desc ''reported_at''
        (foldl (\<lambda>rows (c, v). eq_filter c v rows) al (q @ [own])))).
        js_get r ''user_id'' = JNum (Fin (real_of_int (uid u)))" for t al
    using filters_last [of al q "''user_id''" "JNum (Fin (real_of_int (uid u)))"]
    by (auto simp: set_order_desc js_get_joined_user_id own_def integer_columns_def
        dest!: subsetD intro!: matches_js_get)
  have readable: "\<not> list_ex unreadable q" "\<not> unreadable own"
    by (simp_all add: q_def own_def unreadable_def integer_columns_def)
  show ?thesis
  proof (cases "faults s")
    case Nil
    then have "fst (get_alerts s u query) =
        Response 200 (JArr (map JObj (map (joined s) (order_desc ''reported_at''
          (foldl (\<lambda>rows (c, v). eq_filter c v rows) (alerts s) (q @ [own]))))))"
      by (simp add: sel select_alerts_def store_call_def comp_def readable)
    with own_rows [of s "alerts s"] Nil show ?thesis
      by (simp only: list.case) blast
  next
    case (Cons f fs)
    show ?thesis
    proof (cases f)
      case None
      with Cons have "fst (get_alerts s u query) =
          Response 200 (JArr (map JObj (map (joined (s\<lparr>faults := fs\<rparr>)) (order_desc ''reported_at''
            (foldl (\<lambda>rows (c, v). eq_filter c v rows) (alerts s) (q @ [own]))))))"
        by (simp add: sel select_alerts_def store_call_def comp_def readable)
      with own_rows [of "s\<lparr>faults := fs\<rparr>" "alerts s"] Cons None show ?thesis
        by (simp only: list.case option.case) blast
    next
      case (Some e)
      with Cons show ?thesis
        by (simp add: sel select_alerts_def store_call_def)
    qed
  qed
qed

text \<open>User 5 asks for the alerts of user 6 and gets alert 1, which is user 5's own.\<close>

theorem list_own_alerts_only_witness:
  "role citizen = ''user''
   \<and> fst (get_alerts station citizen [(''user_id'', JNum (Fin 6))])
       = Response 200 (JArr (map JObj [joined station alert1]))
   \<and> js_get (joined station alert1) ''user_id'' = JNum (Fin (real_of_int (uid citizen)))"
proof -
  have own: "role citizen = ''user''"
    by (simp add: citizen_def)
  have listed: "fst (get_alerts station citizen [(''user_id'', JNum (Fin 6))])
      = Response 200 (JArr (map JObj [joined station alert1]))"
    by code_simp
  have "faults station = []"
    by (simp add: station_def)
  with list_own_alerts_only [OF own, of station "[(''user_id'', JNum (Fin 6))]"]
  obtain rows where
    rows: "fst (get_alerts station citizen [(''user_id'', JNum (Fin 6))]) = Response 200 (JArr (map JObj rows))"
    and mine: "\<forall>r \<in> set rows. js_get r ''user_id'' = JNum (Fin (real_of_int (uid citizen)))"
    by auto
  from rows listed have "rows = [joined station alert1]"
    by (auto simp: map_eq_Cons_conv)
  with mine own listed show ?thesis
    by simp
qed

section \<open>SetStatus\<close>

text \<open>
  C4 (as amended). For a caller of role \<^verbatim>\<open>user\<close> the answer is Forbidden (403) when
  the requested status is one of pending, responding, resolved, cancelled, and
  BadRequest (400) when it is not: the status is validated before the role. Either way
  nothing is written.
\<close>

theorem status_user_forbidden_when_valid:
  assumes "role u = ''user''"
  shows "patch_status now s u i body =
     (if js_includes validStatuses (js_get body ''status'')
      then message 403 ''Access denied'' else message 400 ''Invalid status'', s)"
  using assms by (simp add: patch_status_def js_includes_def)

theorem status_user_forbidden_when_valid_witness:
  "role citizen = ''user''
   \<and> patch_status noon station citizen 1 [(''status'', JStr ''resolved'')]
       = (message 403 ''Access denied'', station)"
  using status_user_forbidden_when_valid [of citizen noon station 1 "[(''status'', JStr ''resolved'')]"]
  by code_simp

text \<open>
  C4 as stated fails for a status outside the four: user 5 asking for the status
  \<^verbatim>\<open>archived\<close> is answered BadRequest, not Forbidden.
\<close>

theorem status_user_invalid_counterexample:
  "patch_status noon station citizen 1 [(''status'', JStr ''archived'')]
     = (message 400 ''Invalid status'', station)"
  by code_simp

text \<open>
  C2 (as amended). An admin, a dispatcher or a rescuer sets a valid status \<open>st\<close> on
  an alert, and the store serves every call; \<open>v\<close> is the alert's
  \<^verbatim>\<open>assigned_vehicle_id\<close>. The answer is the updated alert. If \<open>st\<close> is
  \<^verbatim>\<open>responding\<close> and \<open>v\<close> is truthy (not null and not 0), every vehicle row of id
  \<open>v\<close> gets status \<^verbatim>\<open>responding\<close>; if \<open>st\<close> is \<^verbatim>\<open>resolved\<close> and \<open>v\<close> is truthy,
  status \<^verbatim>\<open>available\<close>; if \<open>st\<close> is \<^verbatim>\<open>pending\<close> or \<^verbatim>\<open>cancelled\<close>, or \<open>v\<close> is
  not truthy, the vehicle table is left as it was.
\<close>

theorem status_reconciles_vehicle:
  assumes "role u = ''admin'' \<or> role u = ''dispatcher'' \<or> role u = ''rescuer''"
    and "faults s = []"
    and "eq_filter ''id'' (JNum (Fin (real_of_int i))) (alerts s) = [a]"
    and "js_get body ''status'' = JStr st"
    and "st \<in> set validStatuses"
  shows "fst (patch_status now s u i body)
           = Response 200 (JObj (AList.merge a [(''status'', JStr st), (''updated_at'', JStr now)]))
       \<and> (st = ''responding'' \<and> truthy (js_get a ''assigned_vehicle_id'') \<longrightarrow>
            vehicles (snd (patch_status now s u i body))
              = set_columns ''id'' (js_get a ''assigned_vehicle_id'')
                  [(''status'', JStr ''responding'')] (vehicles s))
       \<and> (st = ''resolved'' \<and> truthy (js_get a ''assigned_vehicle_id'') \<longrightarrow>
            vehicles (snd (patch_status now s u i body))
              = set_columns ''id'' (js_get a ''assigned_vehicle_id'')
                  [(''status'', JStr ''available'')] (vehicles s))
       \<and> (st = ''pending'' \<or> st = ''cancelled'' \<or> \<not> truthy (js_get a ''assigned_vehicle_id'') \<longrightarrow>
            vehicles (snd (patch_status now s u i body)) = vehicles s)"
proof -
  let ?p = "[(''status'', JStr st), (''updated_at'', JStr now)]"
  let ?s1 = "s\<lparr>alerts := set_columns ''id'' (JNum (Fin (real_of_int i))) ?p (alerts s)\<rparr>"
  let ?v = "js_get a ''assigned_vehicle_id''"
  have valid: "js_includes validStatuses (js_get body ''status'')"
    using assms(4,5) by (simp add: js_includes_def)
  have allowed: "js_includes [''admin'', ''dispatcher'', ''rescuer''] (JStr (role u))"
    using assms(1) by (auto simp: js_includes_def)
  have written: "update_alert ?p i plain s = ((JObj (AList.merge a ?p), None), ?s1)"
    using assms(2,3) by (simp add: update_alert_served plain_def)
  have vehicle: "js_prop (JObj (AList.merge a [(''status'', x), (''updated_at'', y)]))
      ''assigned_vehicle_id'' = Inr ?v" for x y
    by (simp add: js_prop_def js_get_update)
  have rec: "reconcile tr w (JStr st) (JObj (AList.merge a ?p)) t =
      Inr (if st = tr \<and> truthy ?v then snd (update_vehicle w ?v t) else t)" for tr w t
    by (simp add: reconcile_def vehicle del: merge_simps)
  have run: "patch_status now s u i body =
      (Response 200 (JObj (AList.merge a ?p)),
       (let s2 = (if st = ''responding'' \<and> truthy ?v then snd (update_vehicle ''responding'' ?v ?s1) else ?s1)
        in if st = ''resolved'' \<and> truthy ?v then snd (update_vehicle ''available'' ?v s2) else s2))"
    using valid allowed assms(4)
    by (simp add: patch_status_def written rec Let_def del: merge_simps)
  from assms(5) have "st = ''pending'' \<or> st = ''responding'' \<or> st = ''resolved'' \<or> st = ''cancelled''"
    by (simp add: validStatuses_def)
  then show ?thesis
    using assms(2) by (auto simp: run update_vehicle_served Let_def simp del: merge_simps)
qed

text \<open>The scenario of the specification: alert 1, with vehicle 10, goes to responding.\<close>

theorem status_reconciles_vehicle_witness:
  "role dispatcher = ''dispatcher''
   \<and> eq_filter ''id'' (JNum (Fin (real_of_int 1))) (alerts station) = [alert1]
   \<and> js_get alert1 ''assigned_vehicle_id'' = JNum (Fin 10)
   \<and> map (\<lambda>r. (js_get r ''id'', js_get r ''status''))
        (vehicles (snd (patch_status noon station dispatcher 1 [(''status'', JStr ''responding'')])))
       = [(JNum (Fin 10), JStr ''responding''), (JNum (Fin 20), JStr ''available'')]"
proof -
  have given: "role dispatcher = ''dispatcher''"
    "faults station = []"
    "eq_filter ''id'' (JNum (Fin (real_of_int 1))) (alerts station) = [alert1]"
    "js_get [(''status'', JStr ''responding'')] ''status'' = JStr ''responding''"
    "''responding'' \<in> set validStatuses"
    "js_get alert1 ''assigned_vehicle_id'' = JNum (Fin 10)"
    by code_simp+
  have "vehicles (snd (patch_status noon station dispatcher 1 [(''status'', JStr ''responding'')]))
      = set_columns ''id'' (js_get alert1 ''assigned_vehicle_id'')
          [(''status'', JStr ''responding'')] (vehicles station)"
    using status_reconciles_vehicle
      [of dispatcher station 1 alert1 "[(''status'', JStr ''responding'')]" "''responding''" noon]
      given by simp
  moreover have "map (\<lambda>r. (js_get r ''id'', js_get r ''status''))
      (set_columns ''id'' (js_get alert1 ''assigned_vehicle_id'')
          [(''status'', JStr ''responding'')] (vehicles station))
      = [(JNum (Fin 10), JStr ''responding''), (JNum (Fin 20), JStr ''available'')]"
    by code_simp
  ultimately show ?thesis
    using given by simp
qed

text \<open>
  C2 as stated fails for a vehicle id that is not null but 0. Update writes
  \<^verbatim>\<open>assigned_vehicle_id = 0\<close> to alert 2; setting the alert to responding then
  succeeds and leaves vehicle 0 \<^verbatim>\<open>available\<close>.
\<close>

theorem status_zero_counterexample:
  "map (\<lambda>r. js_get r ''assigned_vehicle_id'')
     (eq_filter ''id'' (JNum (Fin 2))
        (alerts (snd (put_alert noon yard dispatcher 2 [(''assigned_vehicle_id'', JNum (Fin 0))]))))
     = [JNum (Fin 0)]
   \<and> status_of (fst (patch_status noon
          (snd (put_alert noon yard dispatcher 2 [(''assigned_vehicle_id'', JNum (Fin 0))]))
          dispatcher 2 [(''status'', JStr ''responding'')])) = 200
   \<and> map (\<lambda>r. (js_get r ''id'', js_get r ''status''))
       (vehicles (snd (patch_status noon
          (snd (put_alert noon yard dispatcher 2 [(''assigned_vehicle_id'', JNum (Fin 0))]))
          dispatcher 2 [(''status'', JStr ''responding'')])))
     = [(JNum (Fin 0), JStr ''available''), (JNum (Fin 10), JStr ''assigned''), (JNum (Fin 20), JStr ''available'')]"
  by code_simp

section \<open>Failed vehicle writes\<close>

text \<open>
  C7. When SetStatus has passed its checks and its write to the alert succeeds with
  \<open>data\<close>, the answer is 200 with \<open>data\<close> and the alerts are as that write left
  them; when Assign has passed its check and its read and its write to the alert succeed,
  the write with \<open>updatedAlert\<close>, the answer is 200 with \<open>updatedAlert\<close> and the
  alerts are as that write left them. Nothing is assumed of the calls after the write,
  so this holds whether the store serves or fails the writes to vehicles.
\<close>

theorem vehicle_failures_not_surfaced:
  "(js_includes validStatuses (js_get body ''status'')
      \<and> js_includes [''admin'', ''dispatcher'', ''rescuer''] (JStr (role u))
      \<and> update_alert [(''status'', js_get body ''status''), (''updated_at'', JStr now)] i plain s
          = ((data, None), s1)
    \<longrightarrow> fst (patch_status now s u i body) = Response 200 data
        \<and> alerts (snd (patch_status now s u i body)) = alerts s1)
   \<and> (js_includes [''admin'', ''dispatcher''] (JStr (role u))
      \<and> select_alert assigned_only i s = ((currentAlert, None), s0)
      \<and> update_alert
            [(''assigned_vehicle_id'', js_or (js_get body ''vehicle_id'') JNull),
             (''assigned_responder_id'', js_or (js_get body ''responder_id'') JNull),
             (''updated_at'', JStr now)] i assignment s0
          = ((updatedAlert, None), s1)
    \<longrightarrow> fst (patch_assign now s u i body) = Response 200 updatedAlert
        \<and> alerts (snd (patch_assign now s u i body)) = alerts s1)"
proof (intro conjI impI)
  assume a: "js_includes validStatuses (js_get body ''status'')
      \<and> js_includes [''admin'', ''dispatcher'', ''rescuer''] (JStr (role u))
      \<and> update_alert [(''status'', js_get body ''status''), (''updated_at'', JStr now)] i plain s
          = ((data, None), s1)"
  then obtain r where r: "data = JObj r"
    by (blast dest: update_alert_object)
  obtain s2 where s2: "reconcile ''responding'' ''responding'' (js_get body ''status'') (JObj r) s1 = Inr s2"
      "alerts s2 = alerts s1"
    using reconcile_object by blast
  obtain s3 where s3: "reconcile ''resolved'' ''available'' (js_get body ''status'') (JObj r) s2 = Inr s3"
      "alerts s3 = alerts s2"
    using reconcile_object by blast
  from a r s2 s3 have "patch_status now s u i body = (Response 200 data, s3)"
    by (simp add: patch_status_def Let_def)
  with s2 s3 show "fst (patch_status now s u i body) = Response 200 data"
    and "alerts (snd (patch_status now s u i body)) = alerts s1"
    by simp_all
next
  assume a: "js_includes [''admin'', ''dispatcher''] (JStr (role u))
      \<and> select_alert assigned_only i s = ((currentAlert, None), s0)
      \<and> update_alert
            [(''assigned_vehicle_id'', js_or (js_get body ''vehicle_id'') JNull),
             (''assigned_responder_id'', js_or (js_get body ''responder_id'') JNull),
             (''updated_at'', JStr now)] i assignment s0
          = ((updatedAlert, None), s1)"
  then show "fst (patch_assign now s u i body) = Response 200 updatedAlert"
    and "alerts (snd (patch_assign now s u i body)) = alerts s1"
    by (simp_all add: patch_assign_def Let_def update_vehicle_alerts)
qed

text \<open>
  The store fails the writes to vehicles: both handlers answer 200 with the updated
  alert, the alert keeps its update, and the vehicles keep their old status.
\<close>

theorem vehicle_failures_not_surfaced_witness:
  "status_of (fst (patch_status noon (outage 1) dispatcher 1 [(''status'', JStr ''responding'')])) = 200
   \<and> js_prop (body_of (fst (patch_status noon (outage 1) dispatcher 1 [(''status'', JStr ''responding'')])))
         ''status'' = Inr (JStr ''responding'')
   \<and> map (\<lambda>r. js_get r ''status'')
         (alerts (snd (patch_status noon (outage 1) dispatcher 1 [(''status'', JStr ''responding'')])))
       = [JStr ''responding'', JStr ''pending'']
   \<and> map (\<lambda>r. js_get r ''status'')
         (vehicles (snd (patch_status noon (outage 1) dispatcher 1 [(''status'', JStr ''responding'')])))
       = [JStr ''assigned'', JStr ''available'']
   \<and> status_of (fst (patch_assign noon (outage 2) dispatcher 1 [(''vehicle_id'', JNum (Fin 20))])) = 200
   \<and> js_prop (body_of (fst (patch_assign noon (outage 2) dispatcher 1 [(''vehicle_id'', JNum (Fin 20))])))
         ''assigned_vehicle_id'' = Inr (JNum (Fin 20))
   \<and> map (\<lambda>r. js_get r ''assigned_vehicle_id'')
         (alerts (snd (patch_assign noon (outage 2) dispatcher 1 [(''vehicle_id'', JNum (Fin 20))])))
       = [JNum (Fin 20), JNull]
   \<and> map (\<lambda>r. js_get r ''status'')
         (vehicles (snd (patch_assign noon (outage 2) dispatcher 1 [(''vehicle_id'', JNum (Fin 20))])))
       = [JStr ''assigned'', JStr ''available'']"
proof -
  let ?b = "[(''status'', JStr ''responding'')]"
  let ?w = "update_alert [(''status'', js_get ?b ''status''), (''updated_at'', JStr noon)] 1 plain (outage 1)"
  have "js_includes validStatuses (js_get ?b ''status'')"
    and "js_includes [''admin'', ''dispatcher'', ''rescuer''] (JStr (role dispatcher))"
    and "?w = ((fst (fst ?w), None), snd ?w)"
    by code_simp+
  with vehicle_failures_not_surfaced
    [where body = ?b and u = dispatcher and now = noon and i = 1 and s = "outage 1"
       and data = "fst (fst ?w)" and ?s1.0 = "snd ?w"]
  have status: "fst (patch_status noon (outage 1) dispatcher 1 ?b) = Response 200 (fst (fst ?w))"
    "alerts (snd (patch_status noon (outage 1) dispatcher 1 ?b)) = alerts (snd ?w)"
    by blast+
  let ?c = "[(''vehicle_id'', JNum (Fin 20))]"
  let ?r = "select_alert assigned_only 1 (outage 2)"
  let ?x = "update_alert
            [(''assigned_vehicle_id'', js_or (js_get ?c ''vehicle_id'') JNull),
             (''assigned_responder_id'', js_or (js_get ?c ''responder_id'') JNull),
             (''updated_at'', JStr noon)] 1 assignment (snd ?r)"
  have "js_includes [''admin'', ''dispatcher''] (JStr (role dispatcher))"
    and "?r = ((fst (fst ?r), None), snd ?r)"
    and "?x = ((fst (fst ?x), None), snd ?x)"
    by code_simp+
  with vehicle_failures_not_surfaced
    [where body = ?c and u = dispatcher and now = noon and i = 1 and s = "outage 2"
       and currentAlert = "fst (fst ?r)" and ?s0.0 = "snd ?r"
       and updatedAlert = "fst (fst ?x)" and ?s1.0 = "snd ?x"]
  have assign: "fst (patch_assign noon (outage 2) dispatcher 1 ?c) = Response 200 (fst (fst ?x))"
    "alerts (snd (patch_assign noon (outage 2) dispatcher 1 ?c)) = alerts (snd ?x)"
    by blast+
  have "status_of (Response 200 (fst (fst ?w))) = 200"
    and "js_prop (body_of (Response 200 (fst (fst ?w)))) ''status'' = Inr (JStr ''responding'')"
    and "map (\<lambda>r. js_get r ''status'') (alerts (snd ?w)) = [JStr ''responding'', JStr ''pending'']"
    and "map (\<lambda>r. js_get r ''status'') (vehicles (snd (patch_status noon (outage 1) dispatcher 1 ?b)))
       = [JStr ''assigned'', JStr ''available'']"
    and "status_of (Response 200 (fst (fst ?x))) = 200"
    and "js_prop (body_of (Response 200 (fst (fst ?x)))) ''assigned_vehicle_id'' = Inr (JNum (Fin 20))"
    and "map (\<lambda>r. js_get r ''assigned_vehicle_id'') (alerts (snd ?x)) = [JNum (Fin 20), JNull]"
    and "map (\<lambda>r. js_get r ''status'') (vehicles (snd (patch_assign noon (outage 2) dispatcher 1 ?c)))
       = [JStr ''assigned'', JStr ''available'']"
    by code_simp+
  then show ?thesis
    by (simp only: status assign) 
qed

section \<open>Update\<close>

lemma map_of_filter_values:
  "distinct (map fst al) \<Longrightarrow>
   map_of (filter (\<lambda>(k, v). P v) al) c =
     (case map_of al c of None \<Rightarrow> None | Some v \<Rightarrow> if P v then Some v else None)"
proof (induction al)
  case Nil
  then show ?case by simp
next
  case (Cons x al)
  obtain k v where x: "x = (k, v)"
    by (cases x)
  from Cons.prems x have "k \<notin> fst ` set (filter (\<lambda>(k, v). P v) al)"
    by auto
  then have "map_of (filter (\<lambda>(k, v). P v) al) k = None"
    by (simp add: map_of_eq_None_iff)
  with Cons x show ?case
    by simp
qed

lemma map_of_update_data:
  "map_of (wire_props (update_data now body)) c =
     (if c = ''updated_at'' then Some (JStr now)
      else case map_of body c of
             None \<Rightarrow> None
           | Some v \<Rightarrow> if v = JUndefined then None else Some (wire v))"
proof -
  have keys: "distinct (map fst (AList.update ''updated_at'' (JStr now) (AList.clearjunk body)))"
    by (simp add: distinct_update distinct_clearjunk)
  then have "distinct (map fst (update_data now body))"
    by (simp add: update_data_def distinct_map_filter)
  with keys show ?thesis
    by (simp add: map_of_wire_props)
       (simp add: update_data_def map_of_filter_values update_conv' map_of_clearjunk
          split: option.splits)
qed

text \<open>
  C9 (as amended). An admin or a dispatcher updates an existing alert and the store
  serves the call. The answer is the alert with the columns of
  \<^verbatim>\<open>{ ...req.body, updated_at: now }\<close>, as the store reads them, written over its
  own, and that is the row the store holds; no vehicle row is written; every key of the
  body other than \<^verbatim>\<open>updated_at\<close> (and not \<^verbatim>\<open>undefined\<close>) has in the record the
  value the JSON text of the body's value carries, whatever the value: the value itself,
  but for an infinity in it, which is written as \<^verbatim>\<open>null\<close>; \<^verbatim>\<open>updated_at\<close> is the
  current time.
\<close>

theorem update_writes_body:
  assumes "role u = ''admin'' \<or> role u = ''dispatcher''"
    and "faults s = []"
    and "eq_filter ''id'' (JNum (Fin (real_of_int i))) (alerts s) = [a]"
  shows "fst (put_alert now s u i body)
           = Response 200 (JObj (AList.merge a (wire_props (update_data now body))))
       \<and> alerts (snd (put_alert now s u i body))
           = set_columns ''id'' (JNum (Fin (real_of_int i))) (wire_props (update_data now body))
               (alerts s)
       \<and> vehicles (snd (put_alert now s u i body)) = vehicles s
       \<and> (\<forall>k v. map_of body k = Some v \<and> v \<noteq> JUndefined \<and> k \<noteq> ''updated_at'' \<longrightarrow>
             js_get (AList.merge a (wire_props (update_data now body))) k = wire v)
       \<and> js_get (AList.merge a (wire_props (update_data now body))) ''updated_at'' = JStr now"
proof -
  have allowed: "js_includes [''admin'', ''dispatcher''] (JStr (role u))"
    using assms(1) by (auto simp: js_includes_def)
  have "put_alert now s u i body =
      (Response 200 (JObj (AList.merge a (wire_props (update_data now body)))),
       s\<lparr>alerts := set_columns ''id'' (JNum (Fin (real_of_int i)))
                     (wire_props (update_data now body)) (alerts s)\<rparr>)"
    using allowed assms(2,3) by (simp add: put_alert_def update_alert_served plain_def)
  then show ?thesis
    by (simp add: js_get_merge map_of_update_data)
qed

text \<open>
  Update writes a status and a severity that SetStatus and Create reject, another
  owner, and a vehicle that is left \<^verbatim>\<open>available\<close>; each value is the body's own.
\<close>

theorem update_writes_body_witness:
  "role dispatcher = ''dispatcher''
   \<and> eq_filter ''id'' (JNum (Fin (real_of_int 1))) (alerts station) = [alert1]
   \<and> map (\<lambda>k. js_prop (body_of (fst (put_alert noon station dispatcher 1
             [(''status'', JStr ''archived''), (''severity'', JStr ''extreme''),
              (''user_id'', JNum (Fin 6)), (''assigned_vehicle_id'', JNum (Fin 20))]))) k)
         [''status'', ''severity'', ''user_id'', ''assigned_vehicle_id'']
       = [Inr (JStr ''archived''), Inr (JStr ''extreme''), Inr (JNum (Fin 6)), Inr (JNum (Fin 20))]
   \<and> vehicles (snd (put_alert noon station dispatcher 1
             [(''status'', JStr ''archived''), (''severity'', JStr ''extreme''),
              (''user_id'', JNum (Fin 6)), (''assigned_vehicle_id'', JNum (Fin 20))]))
       = vehicles station"
proof -
  let ?b = "[(''status'', JStr ''archived''), (''severity'', JStr ''extreme''),
             (''user_id'', JNum (Fin 6)), (''assigned_vehicle_id'', JNum (Fin 20))]"
  have given: "role dispatcher = ''dispatcher''" "faults station = []"
    "eq_filter ''id'' (JNum (Fin (real_of_int 1))) (alerts station) = [alert1]"
    by code_simp+
  note written = update_writes_body [of dispatcher station 1 alert1 noon ?b]
  from written given
  have answer: "fst (put_alert noon station dispatcher 1 ?b)
      = Response 200 (JObj (AList.merge alert1 (wire_props (update_data noon ?b))))"
    and same: "vehicles (snd (put_alert noon station dispatcher 1 ?b)) = vehicles station"
    by simp_all
  have "map (\<lambda>k. js_prop (body_of (Response 200
            (JObj (AList.merge alert1 (wire_props (update_data noon ?b)))))) k)
         [''status'', ''severity'', ''user_id'', ''assigned_vehicle_id'']
       = [Inr (JStr ''archived''), Inr (JStr ''extreme''), Inr (JNum (Fin 6)), Inr (JNum (Fin 20))]"
    by code_simp
  with given same show ?thesis
    by (simp only: answer)
qed

text \<open>
  C9 as stated fails for the key \<^verbatim>\<open>updated_at\<close>: the record gets the current
  time, not the value of the body. It also fails for a value that JSON text does not
  carry: a latitude of \<^verbatim>\<open>1e400\<close> in the body is \<^verbatim>\<open>Infinity\<close> in the handler
  and \<^verbatim>\<open>null\<close> in the record.
\<close>

theorem update_stamp_counterexample:
  "map (\<lambda>r. js_get r ''updated_at'')
     (eq_filter ''id'' (JNum (Fin 1))
        (alerts (snd (put_alert ''2025-03-02T12:00:00.000Z'' station dispatcher 1
           [(''updated_at'', JStr ''1999-12-31T00:00:00.000Z'')]))))
     = [JStr ''2025-03-02T12:00:00.000Z'']
   \<and> map (\<lambda>r. js_get r ''latitude'')
       (eq_filter ''id'' (JNum (Fin 1))
          (alerts (snd (put_alert noon station dispatcher 1 [(''latitude'', JNum PosInf)]))))
     = [JNull]"
  by code_simp

section \<open>Create\<close>

text \<open>
  C5. A payload that lacks \<^verbatim>\<open>alert_type\<close>, \<^verbatim>\<open>severity\<close>, \<^verbatim>\<open>title\<close> or
  \<^verbatim>\<open>location\<close>, or whose \<^verbatim>\<open>alert_type\<close> or \<^verbatim>\<open>severity\<close> is not one of the
  listed values, is answered BadRequest (400), and the store is left as it was.
\<close>

theorem create_rejects_incomplete:
  assumes "map_of body ''alert_type'' = None \<or> map_of body ''severity'' = None
     \<or> map_of body ''title'' = None \<or> map_of body ''location'' = None
     \<or> \<not> js_includes validAlertTypes (js_get body ''alert_type'')
     \<or> \<not> js_includes validSeverities (js_get body ''severity'')"
  shows "\<exists>m. create_alert s u body = (message 400 m, s)"
  using assms by (auto simp: create_alert_def js_get_def Let_def)

theorem create_rejects_incomplete_witness:
  "map_of [(''alert_type'', JStr ''fire''), (''severity'', JStr ''high''),
           (''location'', JStr ''Pier 4'')] ''title'' = None
   \<and> create_alert station citizen
         [(''alert_type'', JStr ''fire''), (''severity'', JStr ''high''),
          (''location'', JStr ''Pier 4'')]
       = (message 400 ''Missing required fields'', station)"
proof -
  let ?body = "[(''alert_type'', JStr ''fire''), (''severity'', JStr ''high''),
                (''location'', JStr ''Pier 4'')]"
  have untitled: "map_of ?body ''title'' = None"
    by simp
  then obtain m where "create_alert station citizen ?body = (message 400 m, station)"
    using create_rejects_incomplete [of ?body station citizen] by blast
  moreover have "fst (create_alert station citizen ?body)
      = message 400 ''Missing required fields''"
    by code_simp
  ultimately show ?thesis
    using untitled by simp
qed

text \<open>What Create builds and inserts when it answers 201.\<close>

lemma alert_data_columns:
  assumes "alert_data u body = Inr ad"
  shows "map_of ad ''latitude'' =
      Some (if truthy (js_get body ''latitude'')
            then JNum (parseFloat (js_get body ''latitude'')) else JNull)"
    and "map_of ad ''longitude'' =
      Some (if truthy (js_get body ''longitude'')
            then JNum (parseFloat (js_get body ''longitude'')) else JNull)"
    and "distinct (map fst ad)"
  using assms
  by (auto simp: alert_data_def Let_def split: sum.splits)

lemma insert_alert_appends:
  "insert_alert ad view s = ((data, None), s') \<Longrightarrow>
   alerts s' = alerts s @ [AList.merge (alert_defaults s) (wire_props ad)]"
  by (auto simp: insert_alert_def store_call_def Let_def alert_defaults_def single_def
      split: list.splits option.splits)

lemma create_alert_created:
  "create_alert s u body = (Response 201 data, s') \<Longrightarrow>
   \<exists>ad. alert_data u body = Inr ad \<and> insert_alert ad with_user s = ((data, None), s')"
  by (auto simp: create_alert_def Let_def message_def server_error_def
      split: if_splits sum.splits prod.splits option.splits)






text \<open>
  C10 (as amended). Whenever Create answers 201, one record has been appended to the
  alerts; where the payload's latitude is a number, the record's latitude is
  \<^verbatim>\<open>null\<close> if the number is 0, the number itself if it is any other finite number,
  and \<^verbatim>\<open>null\<close> if it is an infinity (or NaN); likewise for the longitude.
\<close>

theorem create_zero_coordinate_is_null:
  assumes "create_alert s u body = (Response 201 data, s')"
  shows "\<exists>r. alerts s' = alerts s @ [r]
     \<and> (\<forall>n. js_get body ''latitude'' = JNum n \<longrightarrow>
            js_get r ''latitude'' =
              (case n of Fin x \<Rightarrow> if x = 0 then JNull else JNum (Fin x) | _ \<Rightarrow> JNull))
     \<and> (\<forall>n. js_get body ''longitude'' = JNum n \<longrightarrow>
            js_get r ''longitude'' =
              (case n of Fin x \<Rightarrow> if x = 0 then JNull else JNum (Fin x) | _ \<Rightarrow> JNull))"
proof -
  from assms obtain ad where ad: "alert_data u body = Inr ad"
    and ins: "insert_alert ad with_user s = ((data, None), s')"
    by (blast dest: create_alert_created)
  let ?r = "AList.merge (alert_defaults s) (wire_props ad)"
  note cols = alert_data_columns [OF ad]
  from ins have "alerts s' = alerts s @ [?r]"
    by (rule insert_alert_appends)
  moreover have "js_get ?r ''latitude'' =
      (case n of Fin x \<Rightarrow> if x = 0 then JNull else JNum (Fin x) | _ \<Rightarrow> JNull)"
    if "js_get body ''latitude'' = JNum n" for n
    using that cols(1)
    by (cases n) (simp_all add: js_get_merge map_of_wire_props [OF cols(3)])
  moreover have "js_get ?r ''longitude'' =
      (case n of Fin x \<Rightarrow> if x = 0 then JNull else JNum (Fin x) | _ \<Rightarrow> JNull)"
    if "js_get body ''longitude'' = JNum n" for n
    using that cols(2)
    by (cases n) (simp_all add: js_get_merge map_of_wire_props [OF cols(3)])
  ultimately show ?thesis
    by blast
qed

theorem create_zero_coordinate_is_null_witness:
  "status_of (fst (create_alert station citizen
      (report (JStr ''Collision'') (JNum (Fin 0)) (JNum (Fin 121.25))))) = 201
   \<and> map (\<lambda>r. (js_get r ''latitude'', js_get r ''longitude''))
       (alerts (snd (create_alert station citizen
          (report (JStr ''Collision'') (JNum (Fin 0)) (JNum (Fin 121.25))))))
     = [(JNull, JNull), (JNull, JNull), (JNull, JNum (Fin 121.25))]"
proof -
  let ?b = "report (JStr ''Collision'') (JNum (Fin 0)) (JNum (Fin 121.25))"
  let ?c = "create_alert station citizen ?b"
  have made: "?c = (Response 201 (body_of (fst ?c)), snd ?c)"
    by code_simp
  have body: "js_get ?b ''latitude'' = JNum (Fin 0)" "js_get ?b ''longitude'' = JNum (Fin 121.25)"
    by code_simp+
  from create_zero_coordinate_is_null [OF made] body
  obtain r where r: "alerts (snd ?c) = alerts station @ [r]"
    "js_get r ''latitude'' = JNull" "js_get r ''longitude'' = JNum (Fin 121.25)"
    by auto
  have "map (\<lambda>r. (js_get r ''latitude'', js_get r ''longitude'')) (alerts station)
      = [(JNull, JNull), (JNull, JNull)]"
    by code_simp
  moreover from made have "status_of (fst ?c) = 201"
    by (metis fst_conv status_of.simps)
  ultimately show ?thesis
    using r by simp
qed

text \<open>
  C10 as stated fails for a number that is not 0 and not finite. The latitude
  \<^verbatim>\<open>1e400\<close> of a body is \<^verbatim>\<open>Infinity\<close> in the handler; it is truthy and
  \<^verbatim>\<open>parseFloat\<close> returns it, but the record stores \<^verbatim>\<open>null\<close>, not the parsed
  float.
\<close>

theorem create_infinite_coordinate_counterexample:
  "truthy (JNum PosInf)
   \<and> parseFloat (JNum PosInf) = PosInf
   \<and> status_of (fst (create_alert station citizen
        (report (JStr ''Collision'') (JNum PosInf) (JNum (Fin 121.25))))) = 201
   \<and> map (\<lambda>r. (js_get r ''latitude'', js_get r ''longitude''))
       (alerts (snd (create_alert station citizen
          (report (JStr ''Collision'') (JNum PosInf) (JNum (Fin 121.25))))))
     = [(JNull, JNull), (JNull, JNull), (JNull, JNum (Fin 121.25))]"
  by code_simp

section \<open>Get\<close>

text \<open>
  Get never answers 404: a read that \<^verbatim>\<open>.single()\<close> lets through has a row as its
  \<^verbatim>\<open>data\<close>, and the handler's \<^verbatim>\<open>if (!data)\<close> is not taken.
\<close>

lemma get_alert_answers:
  "status_of (fst (get_alert s u i)) \<in> {200, 403, 500}"
  by (auto simp: get_alert_def select_alert_def store_call_def single_def message_def
      server_error_def js_prop_def split: list.splits option.splits)

text \<open>
  C6 fails on the code. No alert has id 7; \<^verbatim>\<open>.single()\<close> answers that with an
  error, which the handler throws before it reaches its own
  \<^verbatim>\<open>if (!data) return res.status(404)\<close>: the answer is the server error (500), not
  NotFound.
\<close>

theorem get_missing_alert_is_server_error:
  "eq_filter ''id'' (JNum (Fin (real_of_int 7))) (alerts station) = []
   \<and> get_alert station dispatcher 7 = (message 500 not_single, station)"
  by code_simp

end
